theory Spec2Isabelle
  imports Main "HOL-Library.AList"
begin

section \<open>The net.io client component of the engine\<close>

text \<open>
  A shallow embedding of \<^verbatim>\<open>src/engine/components/network/net.io/IgeNetIoClient.js\<close>.

  The component is a JavaScript object literal whose methods read and write properties of
  \<^verbatim>\<open>this\<close>. Here the properties are the fields of the record \<open>client\<close>, every
  method takes the record and returns it updated, and what a method does to the outside
  (logging, the event emitter, the socket, calls of functions supplied by the caller) is
  appended to the field \<open>trace\<close>.

  The methods keep their names, without the leading underscore that an Isabelle name
  cannot have; \<^verbatim>\<open>define\<close> is \<open>defineCommand\<close>, and the anonymous listener of
  \<^verbatim>\<open>message\<close> is \<open>messageListener\<close>. The script has no strict-mode directive, so an
  assignment to an undeclared variable creates a global variable, while reading an
  undeclared variable that no global variable provides is a ReferenceError.

  Boundaries of the embedding:
  \<^item> an object is the association list of its own properties, and it inherits the members
    of \<^verbatim>\<open>Object.prototype\<close> as the language defines them: a property that is not an own
    property reads as the inherited member of that name, \<^verbatim>\<open>undefined\<close> when there is
    none. A write creates an own property, also under the name \<^verbatim>\<open>__proto__\<close>;
  \<^item> what an inherited member does when it is called, and the members that arrays, strings,
    numbers and functions inherit, are outside the model;
  \<^item> numbers are integers, and the key of one is taken only in the range in which every
    integer is a number of the language, below \<open>2^53\<close> in magnitude;
  \<^item> a function value supplied by a caller is an opaque closure \<open>Fn n\<close>: calling it is
    recorded in the trace, and it is taken to return normally without calling back into
    the component;
  \<^item> objects are values: two references to one object are two equal values;
  \<^item> where the behaviour of the script depends on something outside these boundaries
    (the text of a function, a property stored on an array, a call of a built-in member)
    the model stops with the completion \<open>OutsideModel\<close> instead of guessing.
\<close>

subsection \<open>Values\<close>

datatype jsval =
    Undefined
  | Null
  | Bool bool
  | Num int
  | Str string
  | Fn nat
  | Native string
  | Arr "jsval list"
  | Obj "(string \<times> jsval) list"

text \<open>
  \<open>Fn n\<close> is a function supplied by a caller; \<open>Native k\<close> is the member \<open>k\<close> of
  \<^verbatim>\<open>Object.prototype\<close>.
\<close>

datatype error = TypeError | ReferenceError

datatype 'a completion = Normal 'a | Throw error | OutsideModel

text \<open>The conversion of a condition to a boolean (\<^verbatim>\<open>if (req)\<close>).\<close>

fun truthy :: "jsval \<Rightarrow> bool" where
  "truthy Undefined = False"
| "truthy Null = False"
| "truthy (Bool b) = b"
| "truthy (Num n) = (n \<noteq> 0)"
| "truthy (Str s) = (s \<noteq> [])"
| "truthy (Fn f) = True"
| "truthy (Native k) = True"
| "truthy (Arr xs) = True"
| "truthy (Obj kvs) = True"

text \<open>Decimal numerals, as the conversion of a number to a property key writes them.\<close>

definition digit :: "nat \<Rightarrow> char" where
  "digit n = ''0123456789'' ! n"

fun string_of_nat :: "nat \<Rightarrow> string" where
  "string_of_nat n =
     (if n < 10 then [digit n] else string_of_nat (n div 10) @ [digit (n mod 10)])"

declare string_of_nat.simps [simp del]

definition string_of_int :: "int \<Rightarrow> string" where
  "string_of_int i =
     (if i < 0 then CHR ''-'' # string_of_nat (nat (- i)) else string_of_nat (nat i))"

text \<open>
  The key under which a value indexes an object (\<^verbatim>\<open>obj[v]\<close>). It is defined for the
  primitive values, a number being an integer below \<open>2^53\<close> in magnitude; the key of an
  object, an array or a function depends on its \<^verbatim>\<open>toString\<close> and is outside the model.
\<close>

fun toPropertyKey :: "jsval \<Rightarrow> string option" where
  "toPropertyKey Undefined = Some ''undefined''"
| "toPropertyKey Null = Some ''null''"
| "toPropertyKey (Bool b) = Some (if b then ''true'' else ''false'')"
| "toPropertyKey (Num n) =
     (if \<bar>n\<bar> < 9007199254740992 then Some (string_of_int n) else None)"
| "toPropertyKey (Str s) = Some s"
| "toPropertyKey (Fn f) = None"
| "toPropertyKey (Native k) = None"
| "toPropertyKey (Arr xs) = None"
| "toPropertyKey (Obj kvs) = None"

text \<open>
  The array index that a key denotes: the decimal numeral of a number below \<open>2^32 - 1\<close>,
  without a leading zero.
\<close>

definition digitOf :: "char \<Rightarrow> nat option" where
  "digitOf c = map_of (zip ''0123456789'' [0..<10]) c"

fun natOfDigits :: "string \<Rightarrow> nat \<Rightarrow> nat option" where
  "natOfDigits [] acc = Some acc"
| "natOfDigits (c # cs) acc =
     (case digitOf c of None \<Rightarrow> None | Some d \<Rightarrow> natOfDigits cs (10 * acc + d))"

text \<open>Of two numerals of the same length, the first denotes the smaller number.\<close>

fun digitsBelow :: "string \<Rightarrow> string \<Rightarrow> bool" where
  "digitsBelow (c # cs) (d # ds) =
     (if c = d then digitsBelow cs ds
      else (case (digitOf c, digitOf d) of (Some m, Some n) \<Rightarrow> m < n | _ \<Rightarrow> False))"
| "digitsBelow cs ds = False"

definition arrayIndex :: "string \<Rightarrow> nat option" where
  "arrayIndex k =
     (case k of
        [] \<Rightarrow> None
      | c # cs \<Rightarrow>
          if c = CHR ''0'' \<and> cs \<noteq> [] then None
          else if length k < 10 \<or> (length k = 10 \<and> digitsBelow k ''4294967295'')
          then natOfDigits k 0
          else None)"

text \<open>The members of \<^verbatim>\<open>Object.prototype\<close>, which every plain object inherits.\<close>

definition objectPrototypeNames :: "string list" where
  "objectPrototypeNames =
     [''constructor'', ''toString'', ''toLocaleString'', ''valueOf'', ''hasOwnProperty'',
      ''isPrototypeOf'', ''propertyIsEnumerable'', ''__proto__'', ''__defineGetter__'',
      ''__defineSetter__'', ''__lookupGetter__'', ''__lookupSetter__'']"

definition inherited :: "string \<Rightarrow> jsval" where
  "inherited k = (if k \<in> set objectPrototypeNames then Native k else Undefined)"

text \<open>
  The property names that the script reads with a literal key. No built-in prototype has
  a member of one of these names, so on a value that is not a plain object they read as
  \<^verbatim>\<open>undefined\<close>.
\<close>

definition plainKeys :: "string list" where
  "plainKeys = [''cmd'', ''ncmds'', ''id'', ''data'', ''callback'', ''commandName'', ''reason'']"

definition absentOrOutside :: "string \<Rightarrow> jsval completion" where
  "absentOrOutside k =
     (if arrayIndex k = None \<and> k \<notin> set plainKeys then OutsideModel else Normal Undefined)"

text \<open>
  Reading the property \<open>k\<close> of a value (\<^verbatim>\<open>v.k\<close>): a TypeError on \<^verbatim>\<open>undefined\<close> and
  \<^verbatim>\<open>null\<close>; on a plain object the own property, else the inherited member, else
  \<^verbatim>\<open>undefined\<close>; on an array or a string the element or the length. On the other values,
  and for the other keys of arrays and strings, the answer is \<^verbatim>\<open>undefined\<close> where no
  prototype can provide the key, and outside the model elsewhere.
\<close>

fun getProp :: "jsval \<Rightarrow> string \<Rightarrow> jsval completion" where
  "getProp Undefined k = Throw TypeError"
| "getProp Null k = Throw TypeError"
| "getProp (Obj kvs) k = Normal (case map_of kvs k of Some v \<Rightarrow> v | None \<Rightarrow> inherited k)"
| "getProp (Arr xs) k =
     (case arrayIndex k of
        Some i \<Rightarrow> Normal (if i < length xs then xs ! i else Undefined)
      | None \<Rightarrow> if k = ''length'' then Normal (Num (int (length xs))) else absentOrOutside k)"
| "getProp (Str cs) k =
     (case arrayIndex k of
        Some i \<Rightarrow> Normal (if i < length cs then Str [cs ! i] else Undefined)
      | None \<Rightarrow> if k = ''length'' then Normal (Num (int (length cs))) else absentOrOutside k)"
| "getProp (Bool b) k = absentOrOutside k"
| "getProp (Num n) k = absentOrOutside k"
| "getProp (Native m) k = absentOrOutside k"
| "getProp (Fn f) k = OutsideModel"

text \<open>Reading with a computed key (\<^verbatim>\<open>obj[key]\<close>).\<close>

definition getElem :: "jsval \<Rightarrow> jsval \<Rightarrow> jsval completion" where
  "getElem obj key =
     (if obj = Undefined \<or> obj = Null then Throw TypeError
      else case toPropertyKey key of
             None \<Rightarrow> OutsideModel
           | Some k \<Rightarrow> getProp obj k)"

text \<open>
  Writing the property \<open>k\<close> of a value (\<^verbatim>\<open>v.k = x\<close>), returning the value as it is
  afterwards. The script is not in strict mode, so a write to a primitive is ignored.
\<close>

fun setProp :: "jsval \<Rightarrow> string \<Rightarrow> jsval \<Rightarrow> jsval completion" where
  "setProp Undefined k x = Throw TypeError"
| "setProp Null k x = Throw TypeError"
| "setProp (Obj kvs) k x = Normal (Obj (AList.update k x kvs))"
| "setProp (Arr xs) k x = OutsideModel"
| "setProp (Fn f) k x = OutsideModel"
| "setProp (Native m) k x = OutsideModel"
| "setProp (Bool b) k x = Normal (Bool b)"
| "setProp (Num n) k x = Normal (Num n)"
| "setProp (Str cs) k x = Normal (Str cs)"

text \<open>
  The keys a \<^verbatim>\<open>for (i in v)\<close> loop visits: the own properties, those that are array
  indices first, in ascending order, then the others in the order of their creation, which
  is the order of the list. The inherited members are not enumerable.
\<close>

definition indexKeys :: "string list \<Rightarrow> string list" where
  "indexKeys ks =
     map snd (sort_key fst
       (List.map_filter (\<lambda>k. case arrayIndex k of Some n \<Rightarrow> Some (n, k) | None \<Rightarrow> None) ks))"

fun ownKeys :: "jsval \<Rightarrow> string list" where
  "ownKeys (Obj kvs) =
     indexKeys (remdups (map fst kvs)) @
     filter (\<lambda>k. arrayIndex k = None) (remdups (map fst kvs))"
| "ownKeys (Arr xs) = map string_of_nat [0..<length xs]"
| "ownKeys (Str cs) = map string_of_nat [0..<length cs]"
| "ownKeys Undefined = []"
| "ownKeys Null = []"
| "ownKeys (Bool b) = []"
| "ownKeys (Num n) = []"
| "ownKeys (Fn f) = []"
| "ownKeys (Native m) = []"

text \<open>
  The call \<^verbatim>\<open>v.hasOwnProperty(i)\<close> for a key \<open>i\<close> that the loop over \<open>v\<close> visits: true
  when \<^verbatim>\<open>hasOwnProperty\<close> is the inherited member, a TypeError when an own property of
  that name holds something that cannot be called.
\<close>

definition hasOwnProperty :: "jsval \<Rightarrow> bool completion" where
  "hasOwnProperty v =
     (case getProp v ''hasOwnProperty'' of
        Normal (Native m) \<Rightarrow> if m = ''hasOwnProperty'' then Normal True else OutsideModel
      | Normal (Fn f) \<Rightarrow> OutsideModel
      | Normal u \<Rightarrow> Throw TypeError
      | Throw e \<Rightarrow> Throw e
      | OutsideModel \<Rightarrow> OutsideModel)"

subsection \<open>Effects and the state of the component\<close>

datatype level = LogInfo | LogWarning | LogError

text \<open>The messages the component logs, each with the values its text is built from.\<close>

datatype logmsg =
    Connecting jsval
  | ReceivedCommandList nat
  | CannotDefineNotOnServer jsval
  | CannotDefineUndefined
  | CannotSend jsval
  | ConnectedToServer
  | ServerRejected
  | DisconnectedFromServer
  | ConnectionError jsval

text \<open>The three places where the component calls a function it was given.\<close>

datatype callsite = StartCallback | CommandHandler | RequestCallback

datatype effect =
    Log logmsg level
  | Emit jsval jsval
  | IoOpen jsval
  | IoOn string
  | IoSend jsval
  | Call callsite nat "jsval list"

text \<open>
  What the table \<^verbatim>\<open>_networkCommands\<close> holds: one of the component's own two methods,
  bound by the handshake, or a value bound by a caller of \<^verbatim>\<open>define\<close>.
\<close>

datatype handler = OnRequest | OnResponse | Bound jsval

text \<open>
  The fields \<^verbatim>\<open>_networkCommandsLookup\<close>, \<^verbatim>\<open>_networkCommandsIndex\<close>,
  \<^verbatim>\<open>_networkCommands\<close> and \<^verbatim>\<open>_entity\<close> are created by the class that mixes this
  object in, which is not part of the source; their values before the handshake are
  whatever the state passed to a method holds; the three tables are plain objects, held
  here as the lists of their own properties. \<open>io\<close> says whether \<^verbatim>\<open>_io\<close> holds a
  connection, with the four listeners that \<^verbatim>\<open>start\<close> registers on it. \<open>globals\<close> are the global variables of the script: the source reads
  \<^verbatim>\<open>WebSocket\<close>, \<^verbatim>\<open>socket\<close> and \<^verbatim>\<open>commandName\<close> there and assigns \<^verbatim>\<open>id\<close>
  and \<^verbatim>\<open>req\<close>.
\<close>

record client =
  initDone :: bool
  idCounter :: int
  requests :: "(string \<times> jsval) list"
  startCallback :: jsval
  url :: jsval
  io :: bool
  networkCommandsLookup :: jsval
  networkCommandsIndex :: "(string \<times> string) list"
  networkCommands :: "(string \<times> handler) list"
  entity :: jsval
  globals :: "(string \<times> jsval) list"
  trace :: "effect list"

definition log :: "logmsg \<Rightarrow> level \<Rightarrow> client \<Rightarrow> client" where
  "log m l s = s\<lparr>trace := trace s @ [Log m l]\<rparr>"

definition emit :: "jsval \<Rightarrow> jsval \<Rightarrow> client \<Rightarrow> client" where
  "emit name args s = s\<lparr>trace := trace s @ [Emit name args]\<rparr>"

text \<open>
  Reading the tables with a key: \<^verbatim>\<open>this._requests[k]\<close>,
  \<^verbatim>\<open>this._networkCommandsIndex[k]\<close> and \<^verbatim>\<open>this._networkCommands[k]\<close>.
\<close>

definition readRequests :: "client \<Rightarrow> string \<Rightarrow> jsval" where
  "readRequests s k = (case map_of (requests s) k of Some r \<Rightarrow> r | None \<Rightarrow> inherited k)"

definition readIndex :: "client \<Rightarrow> string \<Rightarrow> jsval" where
  "readIndex s k = (case map_of (networkCommandsIndex s) k of Some n \<Rightarrow> Str n | None \<Rightarrow> inherited k)"

definition readCommands :: "client \<Rightarrow> string \<Rightarrow> handler" where
  "readCommands s k =
     (case map_of (networkCommands s) k of Some h \<Rightarrow> h | None \<Rightarrow> Bound (inherited k))"

text \<open>Sequencing: the rest runs only after a normal completion.\<close>

definition andThen ::
  "'a completion \<times> client \<Rightarrow> (client \<Rightarrow> 'b completion \<times> client) \<Rightarrow> 'b completion \<times> client" where
  "andThen r f =
     (case r of
        (Normal v, s) \<Rightarrow> f s
      | (Throw e, s) \<Rightarrow> (Throw e, s)
      | (OutsideModel, s) \<Rightarrow> (OutsideModel, s))"

definition withValue ::
  "'a completion \<Rightarrow> client \<Rightarrow> ('a \<Rightarrow> 'b completion \<times> client) \<Rightarrow> 'b completion \<times> client" where
  "withValue c s f =
     (case c of
        Normal v \<Rightarrow> f v
      | Throw e \<Rightarrow> (Throw e, s)
      | OutsideModel \<Rightarrow> (OutsideModel, s))"

subsection \<open>define, send, request, response\<close>

text \<open>
  \<^verbatim>\<open>define: function (commandName, callback)\<close>. The result is the value returned.
\<close>

definition defineCommand :: "jsval \<Rightarrow> handler \<Rightarrow> client \<Rightarrow> jsval completion \<times> client" where
  "defineCommand commandName callback s =
     (if commandName \<noteq> Undefined \<and> callback \<noteq> Bound Undefined then
        withValue (getElem (networkCommandsLookup s) commandName) s (\<lambda>v.
          if v \<noteq> Undefined then
            (case toPropertyKey commandName of
               None \<Rightarrow> (OutsideModel, s)
             | Some k \<Rightarrow>
                 (Normal (entity s),
                  s\<lparr>networkCommands := AList.update k callback (networkCommands s)\<rparr>))
          else (Normal (entity s), log (CannotDefineNotOnServer commandName) LogError s))
      else (Normal Undefined, log CannotDefineUndefined LogError s))"

text \<open>\<^verbatim>\<open>send: function (commandName, data)\<close>.\<close>

definition send :: "jsval \<Rightarrow> jsval \<Rightarrow> client \<Rightarrow> unit completion \<times> client" where
  "send commandName data s =
     withValue (getElem (networkCommandsLookup s) commandName) s (\<lambda>commandIndex.
       if commandIndex \<noteq> Undefined then
         (if io s then (Normal (), s\<lparr>trace := trace s @ [IoSend (Arr [commandIndex, data])]\<rparr>)
          else (Throw TypeError, s))
       else (Normal (), log (CannotSend commandName) LogError s))"

text \<open>
  \<^verbatim>\<open>newIdHex\<close> increments the counter and returns the hexadecimal text of the counter
  plus four random draws. The random draws and the text of a floating-point number are
  not modelled: the text is the parameter \<open>hex\<close>.
\<close>

definition newIdHex :: "string \<Rightarrow> client \<Rightarrow> string \<times> client" where
  "newIdHex hex s = (hex, s\<lparr>idCounter := idCounter s + 1\<rparr>)"

text \<open>
  \<^verbatim>\<open>request: function (commandName, data, callback)\<close>; \<open>now\<close> is what
  \<^verbatim>\<open>new Date().getTime()\<close> returns.
\<close>

definition request ::
  "jsval \<Rightarrow> jsval \<Rightarrow> jsval \<Rightarrow> string \<Rightarrow> int \<Rightarrow> client \<Rightarrow> unit completion \<times> client" where
  "request commandName data callback hex now s =
     (case newIdHex hex s of
        (ident, s1) \<Rightarrow>
          let req = Obj [(''id'', Str ident), (''cmd'', commandName), (''data'', data),
                         (''callback'', callback), (''timestamp'', Num now)];
              s2 = s1\<lparr>requests := AList.update ident req (requests s1)\<rparr>
          in send (Str ''_igeRequest'')
               (Obj [(''id'', Str ident), (''cmd'', commandName), (''data'', data)]) s2)"

text \<open>\<^verbatim>\<open>response: function (requestId, data)\<close>.\<close>

definition response :: "jsval \<Rightarrow> jsval \<Rightarrow> client \<Rightarrow> unit completion \<times> client" where
  "response requestId data s =
     (case toPropertyKey requestId of
        None \<Rightarrow> (OutsideModel, s)
      | Some k \<Rightarrow>
          let req = readRequests s k in
          if truthy req then
            withValue (getProp req ''commandName'') s (\<lambda>cmd.
              andThen
                (send (Str ''_igeResponse'')
                   (Obj [(''id'', requestId), (''cmd'', cmd), (''data'', data)]) s)
                (\<lambda>s1. (Normal (), s1\<lparr>requests := AList.delete k (requests s1)\<rparr>)))
          else (Normal (), s))"

subsection \<open>The handlers of the two reserved commands\<close>

text \<open>
  Both are methods that use \<^verbatim>\<open>this\<close>. The dispatcher calls a handler as
  \<^verbatim>\<open>this._networkCommands[commandName](data[1])\<close>, which makes the table
  \<^verbatim>\<open>_networkCommands\<close> the receiver; a collaborator that calls
  \<^verbatim>\<open>component._onRequest(data)\<close> makes the component the receiver.
\<close>

datatype receiver = Component | HandlerTable

text \<open>
  \<^verbatim>\<open>_onRequest: function (data)\<close>. \<^verbatim>\<open>socket\<close> is not declared in the function: it is
  read from the global variables, a ReferenceError when there is none of that name. The
  right-hand side of \<^verbatim>\<open>data.socket = socket\<close> is read before the write is attempted.
  On the table of handlers \<^verbatim>\<open>this._requests\<close> is the handler of a command named
  \<^verbatim>\<open>_requests\<close>; no object inherits a member of that name, so when there is no such
  handler the write through it is a TypeError, and when there is one the model stops.
\<close>

definition onRequest :: "receiver \<Rightarrow> jsval \<Rightarrow> client \<Rightarrow> unit completion \<times> client" where
  "onRequest this data s =
     (case map_of (globals s) ''socket'' of
        None \<Rightarrow> (Throw ReferenceError, s)
      | Some socket \<Rightarrow>
          withValue (setProp data ''socket'' socket) s (\<lambda>data1.
            case this of
              HandlerTable \<Rightarrow>
                (case map_of (networkCommands s) ''_requests'' of
                   None \<Rightarrow> (Throw TypeError, s)
                 | Some h \<Rightarrow> (OutsideModel, s))
            | Component \<Rightarrow>
                withValue (getProp data1 ''id'') s (\<lambda>ident.
                  case toPropertyKey ident of
                    None \<Rightarrow> (OutsideModel, s)
                  | Some k \<Rightarrow>
                      let s1 = s\<lparr>requests := AList.update k data1 (requests s)\<rparr> in
                      withValue (getProp data1 ''cmd'') s1 (\<lambda>cmd.
                        withValue (getProp data1 ''data'') s1 (\<lambda>payload.
                          (Normal (), emit cmd (Arr [ident, payload]) s1))))))"

text \<open>
  \<^verbatim>\<open>_onResponse: function (data)\<close>. \<^verbatim>\<open>id\<close> and \<^verbatim>\<open>req\<close> are assigned without a
  declaration, which writes global variables; \<^verbatim>\<open>commandName\<close> is read from the global
  variables. The arguments of \<^verbatim>\<open>req.callback(commandName, data.data)\<close> are read before
  the call is attempted.
\<close>

definition onResponse :: "receiver \<Rightarrow> jsval \<Rightarrow> client \<Rightarrow> unit completion \<times> client" where
  "onResponse this data s =
     withValue (getProp data ''id'') s (\<lambda>ident.
       let s1 = s\<lparr>globals := AList.update ''id'' ident (globals s)\<rparr> in
       case this of
         HandlerTable \<Rightarrow>
           (case map_of (networkCommands s1) ''_requests'' of
              None \<Rightarrow> (Throw TypeError, s1)
            | Some h \<Rightarrow> (OutsideModel, s1))
       | Component \<Rightarrow>
           (case toPropertyKey ident of
              None \<Rightarrow> (OutsideModel, s1)
            | Some k \<Rightarrow>
                let req = readRequests s1 k;
                    s2 = s1\<lparr>globals := AList.update ''req'' req (globals s1)\<rparr>
                in
                if truthy req then
                  withValue (getProp req ''callback'') s2 (\<lambda>callback.
                    case map_of (globals s2) ''commandName'' of
                      None \<Rightarrow> (Throw ReferenceError, s2)
                    | Some commandName \<Rightarrow>
                        withValue (getProp data ''data'') s2 (\<lambda>payload.
                          case callback of
                            Fn f \<Rightarrow>
                              (Normal (),
                               s2\<lparr>trace := trace s2 @ [Call RequestCallback f [commandName, payload]],
                                  requests := AList.delete k (requests s2)\<rparr>)
                          | _ \<Rightarrow> (Throw TypeError, s2)))
                else (Normal (), s2)))"

subsection \<open>Dispatch and the listeners of the connection\<close>

definition handlerTruthy :: "handler \<Rightarrow> bool" where
  "handlerTruthy h = (case h of Bound v \<Rightarrow> truthy v | _ \<Rightarrow> True)"

text \<open>The call \<^verbatim>\<open>this._networkCommands[commandName](data[1])\<close>.\<close>

fun invoke :: "handler \<Rightarrow> jsval \<Rightarrow> client \<Rightarrow> unit completion \<times> client" where
  "invoke OnRequest payload s = onRequest HandlerTable payload s"
| "invoke OnResponse payload s = onResponse HandlerTable payload s"
| "invoke (Bound (Fn f)) payload s =
     (Normal (), s\<lparr>trace := trace s @ [Call CommandHandler f [payload]]\<rparr>)"
| "invoke (Bound (Native m)) payload s = (OutsideModel, s)"
| "invoke (Bound v) payload s = (Throw TypeError, s)"

text \<open>\<^verbatim>\<open>_onMessageFromServer: function (data)\<close>.\<close>

definition onMessageFromServer :: "jsval \<Rightarrow> client \<Rightarrow> unit completion \<times> client" where
  "onMessageFromServer data s =
     withValue (getProp data ''0'') s (\<lambda>index.
       case toPropertyKey index of
         None \<Rightarrow> (OutsideModel, s)
       | Some k \<Rightarrow>
           let commandName = readIndex s k in
           (case toPropertyKey commandName of
              None \<Rightarrow> (OutsideModel, s)
            | Some name \<Rightarrow>
                withValue (getProp data ''1'') s (\<lambda>payload.
                  andThen
                    (if handlerTruthy (readCommands s name)
                     then invoke (readCommands s name) payload s
                     else (Normal (), s))
                    (\<lambda>s1. (Normal (), emit commandName payload s1)))))"

text \<open>
  The loop that fills the reverse lookup: for each key \<open>i\<close> of the table received,
  \<^verbatim>\<open>if (self._networkCommandsLookup.hasOwnProperty(i))\<close> and then
  \<^verbatim>\<open>self._networkCommandsIndex[self._networkCommandsLookup[i]] = i; commandCount++\<close>.
\<close>

fun fillReverse ::
  "string list \<Rightarrow> jsval \<Rightarrow> (string \<times> string) list \<Rightarrow> nat
     \<Rightarrow> unit completion \<times> (string \<times> string) list \<times> nat" where
  "fillReverse [] lookup index commandCount = (Normal (), index, commandCount)"
| "fillReverse (i # rest) lookup index commandCount =
     (case hasOwnProperty lookup of
        Normal own \<Rightarrow>
          (case getProp lookup i of
             Normal v \<Rightarrow>
               (case toPropertyKey v of
                  None \<Rightarrow> (OutsideModel, index, commandCount)
                | Some k \<Rightarrow> fillReverse rest lookup (AList.update k i index) (Suc commandCount))
           | Throw e \<Rightarrow> (Throw e, index, commandCount)
           | OutsideModel \<Rightarrow> (OutsideModel, index, commandCount))
      | Throw e \<Rightarrow> (Throw e, index, commandCount)
      | OutsideModel \<Rightarrow> (OutsideModel, index, commandCount))"

text \<open>The body of \<^verbatim>\<open>if (data.cmd === 'init')\<close> in the message listener.\<close>

definition handshake :: "jsval \<Rightarrow> client \<Rightarrow> unit completion \<times> client" where
  "handshake data s =
     (let s1 = s\<lparr>initDone := True\<rparr> in
      withValue (getProp data ''ncmds'') s1 (\<lambda>ncmds.
        let s2 = s1\<lparr>networkCommandsLookup := ncmds\<rparr> in
        case fillReverse (ownKeys ncmds) ncmds (networkCommandsIndex s2) 0 of
          (r, index, commandCount) \<Rightarrow>
            andThen (r, s2\<lparr>networkCommandsIndex := index\<rparr>) (\<lambda>s3.
              andThen (defineCommand (Str ''_igeRequest'') OnRequest s3) (\<lambda>s4.
                andThen (defineCommand (Str ''_igeResponse'') OnResponse s4) (\<lambda>s5.
                  let s6 = log (ReceivedCommandList commandCount) LogInfo s5 in
                  case startCallback s6 of
                    Fn f \<Rightarrow>
                      (Normal (),
                       s6\<lparr>trace := trace s6 @ [Call StartCallback f []],
                          startCallback := Undefined\<rparr>)
                  | _ \<Rightarrow> (Normal (), s6))))))"

text \<open>The listener of \<^verbatim>\<open>message\<close> that \<^verbatim>\<open>start\<close> registers.\<close>

definition messageListener :: "jsval \<Rightarrow> client \<Rightarrow> unit completion \<times> client" where
  "messageListener data s =
     andThen
       (if \<not> initDone s then
          withValue (getProp data ''cmd'') s (\<lambda>cmd.
            if cmd = Str ''init'' then handshake data s else (Normal (), s))
        else (Normal (), s))
       (onMessageFromServer data)"

text \<open>
  \<^verbatim>\<open>start: function (url, callback)\<close>. \<^verbatim>\<open>typeof(WebSocket) !== 'undefined'\<close> does not
  fail when there is no such global variable, while \<^verbatim>\<open>new NetIo.Client(url)\<close> is a
  ReferenceError when there is no global variable \<^verbatim>\<open>NetIo\<close>. The transport itself is
  not part of the source: a global variable of that name is taken to be it, and creating
  the connection and registering the four listeners are recorded as effects.
\<close>

definition start :: "jsval \<Rightarrow> jsval \<Rightarrow> client \<Rightarrow> unit completion \<times> client" where
  "start u callback s =
     (let s1 = s\<lparr>startCallback := callback\<rparr>;
          s2 = (if u \<noteq> Undefined then s1\<lparr>url := u\<rparr> else s1);
          s3 = log (Connecting (url s2)) LogInfo s2
      in
      if (case map_of (globals s3) ''WebSocket'' of Some w \<Rightarrow> w \<noteq> Undefined | None \<Rightarrow> False) then
        (case map_of (globals s3) ''NetIo'' of
           None \<Rightarrow> (Throw ReferenceError, s3)
         | Some lib \<Rightarrow>
             (Normal (),
              s3\<lparr>io := True,
                 trace := trace s3 @ [IoOpen u, IoOn ''connect'', IoOn ''message'',
                                      IoOn ''disconnect'', IoOn ''error'']\<rparr>))
      else (Normal (), s3))"

text \<open>
  A session: the frames that arrive, one after the other. A frame reaches the message
  listener only when there is a connection on which \<^verbatim>\<open>start\<close> registered it. An
  exception thrown by the listener goes to the transport; the component keeps the state
  it had when the exception was thrown and receives the next frame.
\<close>

fun deliver :: "jsval list \<Rightarrow> client \<Rightarrow> client" where
  "deliver [] s = s"
| "deliver (frame # frames) s =
     deliver frames (if io s then snd (messageListener frame s) else s)"

text \<open>The listeners of \<^verbatim>\<open>connect\<close>, \<^verbatim>\<open>disconnect\<close> and \<^verbatim>\<open>error\<close>.\<close>

definition onConnectToServer :: "client \<Rightarrow> unit completion \<times> client" where
  "onConnectToServer s = (Normal (), emit (Str ''connected'') Undefined (log ConnectedToServer LogInfo s))"

definition onDisconnectFromServer :: "jsval \<Rightarrow> client \<Rightarrow> unit completion \<times> client" where
  "onDisconnectFromServer data s =
     (Normal (),
      emit (Str ''disconnected'') Undefined
        (if data = Str ''booted'' then log ServerRejected LogWarning s
         else log DisconnectedFromServer LogInfo s))"

definition onError :: "jsval \<Rightarrow> client \<Rightarrow> unit completion \<times> client" where
  "onError data s =
     withValue (getProp data ''reason'') s (\<lambda>reason.
       (Normal (), log (ConnectionError reason) LogError s))"

subsection \<open>Vocabulary of the properties\<close>

text \<open>
  Modelled from the spec: the tables \<^verbatim>\<open>_networkCommandsLookup\<close>,
  \<^verbatim>\<open>_networkCommandsIndex\<close> and \<^verbatim>\<open>_networkCommands\<close> of a component on which nothing
  has run yet. The class that creates them is not in the source; the spec has the command
  table built by the handshake and the handler table filled by \<^verbatim>\<open>define\<close>, so they
  start empty. The other fields are as the object literal initialises them. The global
  variables of the page are the parameter.
\<close>

definition fresh :: "(string \<times> jsval) list \<Rightarrow> client" where
  "fresh g =
     \<lparr>initDone = False, idCounter = 0, requests = [], startCallback = Undefined,
      url = Undefined, io = False, networkCommandsLookup = Obj [],
      networkCommandsIndex = [], networkCommands = [], entity = Undefined,
      globals = g, trace = []\<rparr>"

text \<open>The calls of the callback of \<^verbatim>\<open>start\<close> so far.\<close>

fun isReadyCall :: "effect \<Rightarrow> bool" where
  "isReadyCall (Call StartCallback f args) = True"
| "isReadyCall e = False"

definition readyCalls :: "client \<Rightarrow> effect list" where
  "readyCalls s = filter isReadyCall (trace s)"

text \<open>A frame that the message listener takes for the handshake.\<close>

definition initShaped :: "jsval \<Rightarrow> bool" where
  "initShaped frame = (getProp frame ''cmd'' = Normal (Str ''init''))"

fun isNum :: "jsval \<Rightarrow> bool" where
  "isNum (Num n) = True"
| "isNum v = False"

text \<open>An integer in the range in which every integer is a number of the language.\<close>

fun safeInteger :: "jsval \<Rightarrow> bool" where
  "safeInteger (Num n) = (\<bar>n\<bar> < 9007199254740992)"
| "safeInteger v = False"

text \<open>
  The handshake frame of the wire format, \<^verbatim>\<open>{cmd: "init", ncmds: {name: index, ...}}\<close>
  with numeric indices.
\<close>

definition handshakeFrame :: "jsval \<Rightarrow> bool" where
  "handshakeFrame frame =
     (initShaped frame \<and>
      (case getProp frame ''ncmds'' of
         Normal (Obj table) \<Rightarrow> list_all (\<lambda>kv. isNum (snd kv)) table
       | _ \<Rightarrow> False))"

text \<open>The effects a step added to the trace.\<close>

definition effectsSince :: "client \<Rightarrow> client \<Rightarrow> effect list" where
  "effectsSince s s' = drop (length (trace s)) (trace s')"

subsection \<open>A concrete session\<close>

text \<open>
  A page with a WebSocket implementation and the transport library, a handshake that declares the two reserved
  commands and \<^verbatim>\<open>chat\<close>, and the component after \<^verbatim>\<open>start\<close> and that handshake, for
  given global variables.
\<close>

definition browser :: "(string \<times> jsval) list" where
  "browser = [(''WebSocket'', Fn 0), (''NetIo'', Obj [(''Client'', Fn 1)])]"

definition exampleHandshake :: jsval where
  "exampleHandshake =
     Obj [(''cmd'', Str ''init''),
          (''ncmds'', Obj [(''_igeRequest'', Num 0), (''_igeResponse'', Num 1), (''chat'', Num 2)])]"

definition connected :: "(string \<times> jsval) list \<Rightarrow> client" where
  "connected g = deliver [exampleHandshake] (snd (start (Str ''ws://host'') (Fn 7) (fresh g)))"

text \<open>The same component with the request \<^verbatim>\<open>request('chat', 'hi', cb)\<close> outstanding under the id \<^verbatim>\<open>a1\<close>.\<close>

definition awaiting :: "(string \<times> jsval) list \<Rightarrow> client" where
  "awaiting g = snd (request (Str ''chat'') (Str ''hi'') (Fn 3) ''a1'' 100 (connected g))"

section \<open>Properties\<close>

subsection \<open>Auxiliary facts\<close>

lemma arrayIndex_0: "arrayIndex ''0'' = Some 0" by code_simp
lemma arrayIndex_1: "arrayIndex ''1'' = Some (Suc 0)" by code_simp

lemma getProp_frame_0: "getProp (Arr [a, b]) ''0'' = Normal a"
  by (simp add: arrayIndex_0)

lemma getProp_frame_1: "getProp (Arr [a, b]) ''1'' = Normal b"
  by (simp add: arrayIndex_1)

lemma log_fields [simp]:
  "initDone (log m l s) = initDone s"
  "startCallback (log m l s) = startCallback s"
  "networkCommandsLookup (log m l s) = networkCommandsLookup s"
  "networkCommandsIndex (log m l s) = networkCommandsIndex s"
  "networkCommands (log m l s) = networkCommands s"
  "requests (log m l s) = requests s"
  "globals (log m l s) = globals s"
  "io (log m l s) = io s"
  "filter isReadyCall (trace (log m l s)) = filter isReadyCall (trace s)"
  by (simp_all add: log_def)

lemma emit_fields [simp]:
  "initDone (emit n a s) = initDone s"
  "startCallback (emit n a s) = startCallback s"
  "networkCommandsLookup (emit n a s) = networkCommandsLookup s"
  "networkCommandsIndex (emit n a s) = networkCommandsIndex s"
  "networkCommands (emit n a s) = networkCommands s"
  "requests (emit n a s) = requests s"
  "globals (emit n a s) = globals s"
  "io (emit n a s) = io s"
  "filter isReadyCall (trace (emit n a s)) = filter isReadyCall (trace s)"
  by (simp_all add: emit_def)

lemma defineCommand_keeps:
  "initDone (snd (defineCommand c h s)) = initDone s"
  "startCallback (snd (defineCommand c h s)) = startCallback s"
  "networkCommandsLookup (snd (defineCommand c h s)) = networkCommandsLookup s"
  "io (snd (defineCommand c h s)) = io s"
  "filter isReadyCall (trace (snd (defineCommand c h s))) = filter isReadyCall (trace s)"
  by (simp_all add: defineCommand_def withValue_def
           split: option.splits completion.splits)

lemma onRequest_keeps:
  "initDone (snd (onRequest t d s)) = initDone s"
  "startCallback (snd (onRequest t d s)) = startCallback s"
  "networkCommandsLookup (snd (onRequest t d s)) = networkCommandsLookup s"
  "io (snd (onRequest t d s)) = io s"
  "filter isReadyCall (trace (snd (onRequest t d s))) = filter isReadyCall (trace s)"
  by (simp_all add: onRequest_def withValue_def Let_def
           split: option.splits completion.splits receiver.splits)

lemma onResponse_keeps:
  "initDone (snd (onResponse t d s)) = initDone s"
  "startCallback (snd (onResponse t d s)) = startCallback s"
  "networkCommandsLookup (snd (onResponse t d s)) = networkCommandsLookup s"
  "io (snd (onResponse t d s)) = io s"
  "filter isReadyCall (trace (snd (onResponse t d s))) = filter isReadyCall (trace s)"
  by (simp_all add: onResponse_def withValue_def Let_def
           split: option.splits completion.splits receiver.splits jsval.splits)

lemma invoke_keeps:
  "initDone (snd (invoke h d s)) = initDone s"
  "startCallback (snd (invoke h d s)) = startCallback s"
  "networkCommandsLookup (snd (invoke h d s)) = networkCommandsLookup s"
  "io (snd (invoke h d s)) = io s"
  "filter isReadyCall (trace (snd (invoke h d s))) = filter isReadyCall (trace s)"
  by (induction h d s rule: invoke.induct)
     (simp_all add: onRequest_keeps onResponse_keeps)

lemma andThen_snd_cases:
  "snd (andThen r f) = (case fst r of Normal v \<Rightarrow> snd (f (snd r)) | _ \<Rightarrow> snd r)"
  by (cases r) (auto simp: andThen_def split: completion.splits)

lemma onMessageFromServer_keeps:
  "initDone (snd (onMessageFromServer d s)) = initDone s"
  "startCallback (snd (onMessageFromServer d s)) = startCallback s"
  "networkCommandsLookup (snd (onMessageFromServer d s)) = networkCommandsLookup s"
  "io (snd (onMessageFromServer d s)) = io s"
  "filter isReadyCall (trace (snd (onMessageFromServer d s))) = filter isReadyCall (trace s)"
  by (simp_all add: onMessageFromServer_def withValue_def andThen_snd_cases Let_def
                 invoke_keeps
           split: option.splits completion.splits)

lemma andThen_Normal [simp]: "andThen (Normal v, s) f = f s"
  by (simp add: andThen_def)

lemma withValue_Normal [simp]: "withValue (Normal v) s f = f v"
  by (simp add: withValue_def)

lemma getElem_table:
  "getElem (Obj table) (Str c) = Normal (case map_of table c of Some v \<Rightarrow> v | None \<Rightarrow> inherited c)"
  by (simp add: getElem_def)

lemma handshake_keeps:
  "initDone (snd (handshake data s))"
  "io (snd (handshake data s)) = io s"
  by (simp_all add: handshake_def Let_def withValue_def andThen_snd_cases defineCommand_keeps
        split: prod.splits completion.splits jsval.splits)

lemma handshake_lookup:
  "getProp data ''ncmds'' = Normal v \<Longrightarrow> networkCommandsLookup (snd (handshake data s)) = v"
  by (simp add: handshake_def Let_def andThen_snd_cases defineCommand_keeps
        split: prod.splits completion.splits jsval.splits)

lemma handshake_ready_calls:
  "readyCalls (snd (handshake data s)) = readyCalls s \<or>
   (\<exists>f. startCallback s = Fn f \<and>
        readyCalls (snd (handshake data s)) = readyCalls s @ [Call StartCallback f []])"
  by (simp add: handshake_def Let_def withValue_def andThen_snd_cases defineCommand_keeps
        readyCalls_def
        split: prod.splits completion.splits jsval.splits)

text \<open>
  The handshake sets the flag and the command table whatever happens afterwards, and calls
  nothing but the callback of \<^verbatim>\<open>start\<close>, at most once. On a table of integer indices
  without an entry named \<^verbatim>\<open>hasOwnProperty\<close> it completes normally.
\<close>

lemma ownKeys_table: "i \<in> set (ownKeys (Obj kvs)) \<Longrightarrow> i \<in> fst ` set kvs"
  by (force simp: indexKeys_def List.map_filter_def split: option.splits)

lemma hasOwnProperty_plain:
  "map_of table ''hasOwnProperty'' = None \<Longrightarrow> hasOwnProperty (Obj table) = Normal True"
  by (simp add: hasOwnProperty_def inherited_def objectPrototypeNames_def)

lemma fillReverse_numeric:
  "hasOwnProperty lk = Normal True \<Longrightarrow>
   \<forall>i\<in>set keys. \<exists>n. \<bar>n\<bar> < 9007199254740992 \<and> getProp lk i = Normal (Num n) \<Longrightarrow>
   \<exists>idx. fillReverse keys lk index c = (Normal (), idx, c + length keys)"
proof (induction keys arbitrary: index c)
  case Nil
  then show ?case by simp
next
  case (Cons i rest)
  then obtain n where n: "\<bar>n\<bar> < 9007199254740992" "getProp lk i = Normal (Num n)" by auto
  from Cons.IH [of "AList.update (string_of_int n) i index" "Suc c"] Cons.prems
  obtain idx where
    "fillReverse rest lk (AList.update (string_of_int n) i index) (Suc c) =
       (Normal (), idx, Suc c + length rest)"
    by auto
  with n Cons.prems(1) show ?case by simp
qed

lemma numeric_table_keys:
  assumes "list_all (\<lambda>kv. safeInteger (snd kv)) table"
  shows "\<forall>i\<in>set (ownKeys (Obj table)).
           \<exists>n. \<bar>n\<bar> < 9007199254740992 \<and> getProp (Obj table) i = Normal (Num n)"
proof
  fix i assume "i \<in> set (ownKeys (Obj table))"
  then have "i \<in> fst ` set table" by (rule ownKeys_table)
  then obtain v where v: "map_of table i = Some v"
    by (metis domD dom_map_of_conv_image_fst)
  then have "(i, v) \<in> set table" by (rule map_of_SomeD)
  with assms have "safeInteger v" by (auto simp: list_all_iff)
  then obtain n where "v = Num n" "\<bar>n\<bar> < 9007199254740992" by (cases v) auto
  with v show "\<exists>n. \<bar>n\<bar> < 9007199254740992 \<and> getProp (Obj table) i = Normal (Num n)"
    by simp
qed

lemma defineCommand_normal:
  "networkCommandsLookup s = Obj table \<Longrightarrow>
   fst (defineCommand (Str c) h s) = Normal (entity s) \<or>
   fst (defineCommand (Str c) h s) = Normal Undefined"
  by (simp add: defineCommand_def getElem_table)

lemma defineCommand_continues:
  assumes "networkCommandsLookup s = Obj table"
  shows "andThen (defineCommand (Str c) h s) f = f (snd (defineCommand (Str c) h s))"
proof -
  obtain v where "fst (defineCommand (Str c) h s) = Normal v"
    using defineCommand_normal [OF assms] by blast
  then have "defineCommand (Str c) h s = (Normal v, snd (defineCommand (Str c) h s))"
    by (metis prod.collapse)
  then show ?thesis by (metis andThen_Normal)
qed

lemma handshake_numeric:
  assumes "getProp data ''ncmds'' = Normal (Obj table)"
    and "list_all (\<lambda>kv. safeInteger (snd kv)) table"
    and "map_of table ''hasOwnProperty'' = None"
  obtains s6 where
    "handshake data s =
       (case startCallback s of
          Fn f \<Rightarrow> (Normal (), s6\<lparr>trace := trace s6 @ [Call StartCallback f []],
                                 startCallback := Undefined\<rparr>)
        | _ \<Rightarrow> (Normal (), s6))"
    and "filter isReadyCall (trace s6) = filter isReadyCall (trace s)"
proof -
  obtain index where fill:
    "fillReverse (ownKeys (Obj table)) (Obj table) (networkCommandsIndex s) 0 =
       (Normal (), index, 0 + length (ownKeys (Obj table)))"
    using fillReverse_numeric [OF hasOwnProperty_plain [OF assms(3)]
      numeric_table_keys [OF assms(2)]] by blast
  let ?s3 = "s\<lparr>initDone := True, networkCommandsLookup := Obj table,
               networkCommandsIndex := index\<rparr>"
  let ?s4 = "snd (defineCommand (Str ''_igeRequest'') OnRequest ?s3)"
  let ?s5 = "snd (defineCommand (Str ''_igeResponse'') OnResponse ?s4)"
  let ?s6 = "log (ReceivedCommandList (length (ownKeys (Obj table)))) LogInfo ?s5"
  have l3: "networkCommandsLookup ?s3 = Obj table" by simp
  have l4: "networkCommandsLookup ?s4 = Obj table" by (simp add: defineCommand_keeps)
  have cb: "startCallback ?s6 = startCallback s" by (simp add: defineCommand_keeps)
  have "handshake data s =
          (case startCallback ?s6 of
             Fn f \<Rightarrow> (Normal (), ?s6\<lparr>trace := trace ?s6 @ [Call StartCallback f []],
                                     startCallback := Undefined\<rparr>)
           | _ \<Rightarrow> (Normal (), ?s6))"
    using assms(1) fill
    by (simp add: handshake_def Let_def defineCommand_continues [OF l3]
          defineCommand_continues [OF l4] del: ownKeys.simps)
  then have 1: "handshake data s =
          (case startCallback s of
             Fn f \<Rightarrow> (Normal (), ?s6\<lparr>trace := trace ?s6 @ [Call StartCallback f []],
                                     startCallback := Undefined\<rparr>)
           | _ \<Rightarrow> (Normal (), ?s6))"
    by (simp only: cb)
  have 2: "filter isReadyCall (trace ?s6) = filter isReadyCall (trace s)"
    by (simp add: defineCommand_keeps)
  from 1 2 show thesis by (rule that)
qed

lemma deliver_append: "deliver (xs @ ys) s = deliver ys (deliver xs s)"
  by (induction xs arbitrary: s) simp_all

lemma messageListener_after_init:
  "initDone s \<Longrightarrow> messageListener data s = onMessageFromServer data s"
  by (simp add: messageListener_def)

lemma messageListener_io: "io (snd (messageListener data s)) = io s"
  by (simp add: messageListener_def withValue_def andThen_snd_cases onMessageFromServer_keeps
        handshake_keeps split: completion.splits)

lemma messageListener_other_frame:
  assumes "\<not> initDone s" and "\<not> initShaped data"
  shows "\<not> initDone (snd (messageListener data s))"
    and "startCallback (snd (messageListener data s)) = startCallback s"
    and "readyCalls (snd (messageListener data s)) = readyCalls s"
  using assms
  by (simp_all add: messageListener_def initShaped_def withValue_def onMessageFromServer_keeps
        andThen_snd_cases readyCalls_def split: completion.splits)

lemma messageListener_handshake:
  assumes "\<not> initDone s" and "getProp data ''cmd'' = Normal (Str ''init'')"
  shows "messageListener data s = andThen (handshake data s) (onMessageFromServer data)"
  using assms by (simp add: messageListener_def)

lemma messageListener_init_frame:
  assumes "\<not> initDone s" and "initShaped data"
  shows "initDone (snd (messageListener data s))"
    and "readyCalls (snd (messageListener data s)) = readyCalls s \<or>
         (\<exists>f. startCallback s = Fn f \<and>
              readyCalls (snd (messageListener data s)) = readyCalls s @ [Call StartCallback f []])"
proof -
  have m: "messageListener data s = andThen (handshake data s) (onMessageFromServer data)"
    using assms by (simp add: messageListener_handshake initShaped_def)
  show "initDone (snd (messageListener data s))"
    by (simp add: m andThen_snd_cases onMessageFromServer_keeps handshake_keeps
          split: completion.splits)
  have "readyCalls (snd (messageListener data s)) = readyCalls (snd (handshake data s))"
    by (simp add: m andThen_snd_cases onMessageFromServer_keeps readyCalls_def
          split: completion.splits)
  then show "readyCalls (snd (messageListener data s)) = readyCalls s \<or>
         (\<exists>f. startCallback s = Fn f \<and>
              readyCalls (snd (messageListener data s)) = readyCalls s @ [Call StartCallback f []])"
    using handshake_ready_calls [of data s] by simp
qed

lemma deliver_initDone:
  "initDone s \<Longrightarrow>
   initDone (deliver frames s) \<and> readyCalls (deliver frames s) = readyCalls s"
  by (induction frames arbitrary: s)
     (simp_all add: messageListener_after_init onMessageFromServer_keeps readyCalls_def)

lemma deliver_before_init:
  "\<not> initDone s \<Longrightarrow> \<forall>frame\<in>set frames. \<not> initShaped frame \<Longrightarrow>
   \<not> initDone (deliver frames s) \<and>
   startCallback (deliver frames s) = startCallback s \<and>
   io (deliver frames s) = io s \<and>
   readyCalls (deliver frames s) = readyCalls s"
  by (induction frames arbitrary: s)
     (simp_all add: messageListener_other_frame messageListener_io)

lemma deliver_ready_calls:
  "readyCalls (deliver frames s) = readyCalls s \<or>
   (\<not> initDone s \<and>
    (\<exists>f. startCallback s = Fn f \<and>
         readyCalls (deliver frames s) = readyCalls s @ [Call StartCallback f []]))"
proof (induction frames arbitrary: s)
  case Nil
  then show ?case by simp
next
  case (Cons frame frames)
  show ?case
  proof (cases "io s")
    case False
    then show ?thesis using Cons.IH [of s] by simp
  next
    case True
    let ?s' = "snd (messageListener frame s)"
    show ?thesis
    proof (cases "initDone s")
      case ready: True
      then show ?thesis using deliver_initDone [OF ready, of "frame # frames"] by simp
    next
      case notdone: False
      show ?thesis
      proof (cases "initShaped frame")
        case False
        with notdone have "\<not> initDone ?s'" "startCallback ?s' = startCallback s"
          "readyCalls ?s' = readyCalls s"
          by (simp_all add: messageListener_other_frame)
        with Cons.IH [of ?s'] True notdone show ?thesis by auto
      next
        case shaped: True
        have d: "initDone ?s'" using notdone shaped by (rule messageListener_init_frame)
        have "readyCalls (deliver frames ?s') = readyCalls ?s'"
          using deliver_initDone [OF d] by simp
        with messageListener_init_frame(2) [OF notdone shaped] True notdone
        show ?thesis by auto
      qed
    qed
  qed
qed

lemma handshake_fires:
  assumes "\<not> initDone s" and "initShaped frame"
    and "getProp frame ''ncmds'' = Normal (Obj table)"
    and "list_all (\<lambda>kv. safeInteger (snd kv)) table"
    and "map_of table ''hasOwnProperty'' = None"
    and "startCallback s = Fn f"
  shows "initDone (snd (messageListener frame s))"
    and "readyCalls (snd (messageListener frame s)) = readyCalls s @ [Call StartCallback f []]"
proof -
  from assms(2) have c: "getProp frame ''cmd'' = Normal (Str ''init'')"
    by (simp add: initShaped_def)
  from assms(3,4,5) obtain s6 where
    h: "handshake frame s =
       (case startCallback s of
          Fn f \<Rightarrow> (Normal (), s6\<lparr>trace := trace s6 @ [Call StartCallback f []],
                                 startCallback := Undefined\<rparr>)
        | _ \<Rightarrow> (Normal (), s6))"
    and s6: "filter isReadyCall (trace s6) = filter isReadyCall (trace s)"
    by (rule handshake_numeric)
  have m: "messageListener frame s =
        onMessageFromServer frame
          (s6\<lparr>trace := trace s6 @ [Call StartCallback f []], startCallback := Undefined\<rparr>)"
    using assms(1,6) c h by (simp add: messageListener_handshake)
  show "initDone (snd (messageListener frame s))"
    using assms(1,2) by (rule messageListener_init_frame)
  show "readyCalls (snd (messageListener frame s)) = readyCalls s @ [Call StartCallback f []]"
    using s6 by (simp add: m onMessageFromServer_keeps readyCalls_def)
qed

lemma start_keeps:
  "initDone (snd (start u callback s)) = initDone s"
  "startCallback (snd (start u callback s)) = callback"
  "readyCalls (snd (start u callback s)) = readyCalls s"
  by (simp_all add: start_def Let_def log_def readyCalls_def split: option.splits)

lemma start_with_transport:
  assumes "map_of (globals s) ''WebSocket'' = Some w" and "w \<noteq> Undefined"
    and "map_of (globals s) ''NetIo'' = Some lib"
  shows "io (snd (start u callback s))"
  using assms by (simp add: start_def Let_def log_def)

lemma ready_callback_at_most_once:
  "readyCalls (deliver frames (snd (start u callback s))) = readyCalls s \<or>
   (\<not> initDone s \<and>
    (\<exists>f. callback = Fn f \<and>
         readyCalls (deliver frames (snd (start u callback s))) =
           readyCalls s @ [Call StartCallback f []]))"
  using deliver_ready_calls [of frames "snd (start u callback s)"]
  by (simp add: start_keeps)

subsection \<open>The handshake\<close>






subsection \<open>Sending\<close>

text \<open>The decimal numeral of a number names no inherited member.\<close>

lemma string_of_nat_hd:
  "string_of_nat n \<noteq> [] \<and> hd (string_of_nat n) \<in> set ''0123456789''"
proof (induction n rule: string_of_nat.induct)
  case (1 n)
  show ?case
  proof (cases "n < 10")
    case True
    then have "digit n \<in> set ''0123456789''"
      unfolding digit_def by (intro nth_mem) simp
    with True show ?thesis by (simp add: string_of_nat.simps [of n])
  next
    case False
    with 1 show ?thesis by (simp add: string_of_nat.simps [of n])
  qed
qed

lemma numeral_not_inherited: "inherited (string_of_int n) = Undefined"
proof -
  have "string_of_int n \<noteq> [] \<and> hd (string_of_int n) \<in> set ''-0123456789''"
    using string_of_nat_hd [of "nat n"] string_of_nat_hd [of "nat (- n)"]
    by (auto simp: string_of_int_def)
  then have "string_of_int n \<notin> set objectPrototypeNames"
    by (auto simp: objectPrototypeNames_def)
  then show ?thesis by (simp add: inherited_def)
qed

text \<open>
  For a name that the command table holds neither as an own property nor as an inherited
  member, \<^verbatim>\<open>send\<close> logs an error and sends nothing. For the name of an inherited member
  the test \<^verbatim>\<open>commandIndex !== undefined\<close> succeeds, and \<^verbatim>\<open>send\<close> goes on to the
  connection with the member as the index.
\<close>

lemma send_unknown_name:
  assumes "networkCommandsLookup s = Obj table" and "map_of table c = None"
    and "c \<notin> set objectPrototypeNames"
  shows "send (Str c) d s =
           (Normal (), s\<lparr>trace := trace s @ [Log (CannotSend (Str c)) LogError]\<rparr>)"
  using assms by (simp add: send_def getElem_table log_def inherited_def)

lemma send_inherited_name:
  assumes "networkCommandsLookup s = Obj table" and "map_of table c = None"
    and "c \<in> set objectPrototypeNames"
  shows "send (Str c) d s =
           (if io s then (Normal (), s\<lparr>trace := trace s @ [IoSend (Arr [Native c, d])]\<rparr>)
            else (Throw TypeError, s))"
  using assms by (simp add: send_def getElem_table inherited_def)

text \<open>
  Claim C6. The code does not do what the claim says. \<^verbatim>\<open>toString\<close> is not in the table
  of the handshake, and \<^verbatim>\<open>send('toString', 'x')\<close> puts a frame on the connection, with
  the inherited function as its index. Before the handshake, with no connection yet,
  \<^verbatim>\<open>send('constructor', 'x')\<close> ends in a TypeError.
\<close>

theorem send_inherited_name_transmits:
  "networkCommandsLookup (connected browser) =
     Obj [(''_igeRequest'', Num 0), (''_igeResponse'', Num 1), (''chat'', Num 2)] \<and>
   send (Str ''toString'') (Str ''x'') (connected browser) =
     (Normal (),
      (connected browser)\<lparr>trace := trace (connected browser) @
         [IoSend (Arr [Native ''toString'', Str ''x''])]\<rparr>) \<and>
   networkCommandsLookup (fresh browser) = Obj [] \<and>
   send (Str ''constructor'') (Str ''x'') (fresh browser) = (Throw TypeError, fresh browser)"
  by code_simp

text \<open>The request is stored whatever \<^verbatim>\<open>send\<close> does afterwards.\<close>

lemma send_requests: "requests (snd (send c d s)) = requests s"
  by (simp add: send_def withValue_def log_def split: completion.splits)

lemma request_always_stores:
  "map_of (requests (snd (request name d callback hex now s))) hex =
     Some (Obj [(''id'', Str hex), (''cmd'', name), (''data'', d),
                (''callback'', callback), (''timestamp'', Num now)])"
  by (simp add: request_def newIdHex_def Let_def send_requests update_Some_unfold)

text \<open>
  Claim C10. \<^verbatim>\<open>request\<close> stores the pending entry under the id it generated before it
  calls \<^verbatim>\<open>send\<close>: when the command table does not hold \<^verbatim>\<open>_igeRequest\<close>, as before
  the handshake, the entry is in the map of pending requests although no frame was put on
  the connection, and an error was logged.
\<close>

theorem request_stored_without_transmission:
  assumes "networkCommandsLookup s = Obj table" and "map_of table ''_igeRequest'' = None"
  shows "request name d callback hex now s =
           (Normal (),
            s\<lparr>idCounter := idCounter s + 1,
              requests := AList.update hex
                 (Obj [(''id'', Str hex), (''cmd'', name), (''data'', d),
                       (''callback'', callback), (''timestamp'', Num now)]) (requests s),
              trace := trace s @ [Log (CannotSend (Str ''_igeRequest'')) LogError]\<rparr>)"
  using assms
  by (simp add: request_def newIdHex_def send_def getElem_table log_def inherited_def
        objectPrototypeNames_def)

theorem request_stored_without_transmission_witness:
  "networkCommandsLookup (fresh []) = Obj [] \<and>
   map_of ([] :: (string \<times> jsval) list) ''_igeRequest'' = None \<and>
   request (Str ''chat'') (Str ''hi'') (Fn 3) ''a1'' 100 (fresh []) =
     (Normal (),
      (fresh [])\<lparr>idCounter := idCounter (fresh []) + 1,
        requests := AList.update ''a1''
           (Obj [(''id'', Str ''a1''), (''cmd'', Str ''chat''), (''data'', Str ''hi''),
                 (''callback'', Fn 3), (''timestamp'', Num 100)]) (requests (fresh [])),
        trace := trace (fresh []) @ [Log (CannotSend (Str ''_igeRequest'')) LogError]\<rparr>)"
proof -
  have 1: "networkCommandsLookup (fresh []) = Obj []" by (simp add: fresh_def)
  have 2: "map_of ([] :: (string \<times> jsval) list) ''_igeRequest'' = None" by simp
  show ?thesis
    using 1 2 request_stored_without_transmission [OF 1 2] by blast
qed

subsection \<open>Dispatch\<close>




subsection \<open>Starting without a transport\<close>




subsection \<open>The reserved request and response commands\<close>

text \<open>
  \<^verbatim>\<open>_onRequest\<close> raises a ReferenceError wherever there is no global variable
  \<^verbatim>\<open>socket\<close>, and when the dispatcher calls it it never completes normally and stores
  nothing. Called on the component, with a global variable \<^verbatim>\<open>socket\<close>, it stores the
  request in the map of pending requests, over any entry of the same key, and emits the
  event.
\<close>

lemma onRequest_without_socket:
  "map_of (globals s) ''socket'' = None \<Longrightarrow> onRequest this data s = (Throw ReferenceError, s)"
  by (simp add: onRequest_def)

lemma onRequest_on_handler_table:
  assumes "map_of (networkCommands s) ''_requests'' = None"
  shows "fst (onRequest HandlerTable data s) \<noteq> Normal () \<and> snd (onRequest HandlerTable data s) = s"
  using assms
  by (simp add: onRequest_def withValue_def split: option.splits completion.splits)

lemma onRequest_component_stores:
  assumes "map_of (globals s) ''socket'' = Some socket"
    and "map_of kvs ''id'' = Some ident" and "toPropertyKey ident = Some k"
  shows "onRequest Component (Obj kvs) s =
           (Normal (),
            s\<lparr>requests := AList.update k (Obj (AList.update ''socket'' socket kvs)) (requests s),
              trace := trace s @
                [Emit (case map_of kvs ''cmd'' of Some v \<Rightarrow> v | None \<Rightarrow> Undefined)
                   (Arr [ident, case map_of kvs ''data'' of Some v \<Rightarrow> v | None \<Rightarrow> Undefined])]\<rparr>)"
  using assms
  by (simp add: onRequest_def emit_def update_conv' inherited_def objectPrototypeNames_def
        split: option.splits)

text \<open>
  \<^verbatim>\<open>_onResponse\<close>, called by the dispatcher, never completes normally, calls nothing and
  removes nothing. Called on the component it raises a ReferenceError at the pending entry
  when there is no global variable \<^verbatim>\<open>commandName\<close>; with such a variable it calls the
  stored function with the value of that variable and the payload, and removes the entry.
\<close>

lemma onResponse_on_handler_table:
  assumes "map_of (networkCommands s) ''_requests'' = None"
  shows "fst (onResponse HandlerTable data s) \<noteq> Normal () \<and>
         requests (snd (onResponse HandlerTable data s)) = requests s \<and>
         trace (snd (onResponse HandlerTable data s)) = trace s"
  using assms
  by (simp add: onResponse_def withValue_def Let_def split: option.splits completion.splits)

lemma onResponse_without_commandName:
  assumes "map_of (globals s) ''commandName'' = None"
    and "getProp data ''id'' = Normal ident" and "toPropertyKey ident = Some k"
    and "map_of (requests s) k = Some (Obj kvs)"
  shows "fst (onResponse Component data s) = Throw ReferenceError \<and>
         requests (snd (onResponse Component data s)) = requests s \<and>
         trace (snd (onResponse Component data s)) = trace s"
  using assms
  by (simp add: onResponse_def Let_def update_conv' readRequests_def)

lemma onResponse_component_calls_back:
  assumes "map_of (globals s) ''commandName'' = Some name"
    and "getProp data ''id'' = Normal ident" and "toPropertyKey ident = Some k"
    and "map_of (requests s) k = Some req" and "truthy req"
    and "getProp req ''callback'' = Normal (Fn f)"
    and "getProp data ''data'' = Normal payload"
  shows "onResponse Component data s =
           (Normal (),
            s\<lparr>globals := AList.update ''req'' req (AList.update ''id'' ident (globals s)),
              trace := trace s @ [Call RequestCallback f [name, payload]],
              requests := AList.delete k (requests s)\<rparr>)"
  using assms
  by (simp add: onResponse_def Let_def update_conv' readRequests_def del: getProp.simps)

text \<open>
  \<^verbatim>\<open>response\<close> fills the field \<^verbatim>\<open>cmd\<close> of the envelope from the property
  \<^verbatim>\<open>commandName\<close> of the stored request. It does nothing for an id that is neither
  stored nor the name of an inherited member.
\<close>

lemma response_sends_commandName_property:
  assumes "toPropertyKey requestId = Some k"
    and "map_of (requests s) k = Some req" and "truthy req"
    and "getProp req ''commandName'' = Normal cmd"
    and "networkCommandsLookup s = Obj table"
    and "map_of table ''_igeResponse'' = Some index" and "index \<noteq> Undefined"
    and "io s"
  shows "response requestId d s =
           (Normal (),
            s\<lparr>trace := trace s @
                 [IoSend (Arr [index, Obj [(''id'', requestId), (''cmd'', cmd), (''data'', d)]])],
              requests := AList.delete k (requests s)\<rparr>)"
  using assms
  by (simp add: response_def send_def getElem_table readRequests_def del: getProp.simps)

lemma response_unknown_id:
  assumes "toPropertyKey requestId = Some k" and "map_of (requests s) k = None"
    and "k \<notin> set objectPrototypeNames"
  shows "response requestId d s = (Normal (), s)"
  using assms by (simp add: response_def readRequests_def inherited_def)

text \<open>
  Claim C1. The code does not do what the claim says. With the request \<^verbatim>\<open>a1\<close>
  outstanding, the response frame \<^verbatim>\<open>[1, {id: "a1", data: "ok"}]\<close> ends in a TypeError:
  the continuation is not called and the entry stays. \<^verbatim>\<open>_onResponse\<close> called on the
  component itself ends in a ReferenceError, with nothing called and the entry in place.
  A response frame with an id that is not pending ends in a TypeError as well.
\<close>

theorem response_frame_raises:
  "messageListener (Arr [Num 1, Obj [(''id'', Str ''a1''), (''data'', Str ''ok'')]]) (awaiting browser) =
     (Throw TypeError,
      (awaiting browser)\<lparr>globals := AList.update ''id'' (Str ''a1'') (globals (awaiting browser))\<rparr>) \<and>
   fst (onResponse Component (Obj [(''id'', Str ''a1''), (''data'', Str ''ok'')]) (awaiting browser)) =
     Throw ReferenceError \<and>
   effectsSince (awaiting browser)
     (snd (onResponse Component (Obj [(''id'', Str ''a1''), (''data'', Str ''ok'')]) (awaiting browser))) = [] \<and>
   map_of (requests
     (snd (onResponse Component (Obj [(''id'', Str ''a1''), (''data'', Str ''ok'')]) (awaiting browser)))) ''a1'' =
     Some (Obj [(''id'', Str ''a1''), (''cmd'', Str ''chat''), (''data'', Str ''hi''),
                (''callback'', Fn 3), (''timestamp'', Num 100)]) \<and>
   fst (messageListener (Arr [Num 1, Obj [(''id'', Str ''zz''), (''data'', Str ''ok'')]]) (awaiting browser)) =
     Throw TypeError"
  by code_simp

text \<open>
  Claim C5. The code does not do what the claim says. After the handshake the request
  frame \<^verbatim>\<open>[0, {id: "r1", cmd: "chat", data: "hi"}]\<close> ends in a ReferenceError and leaves
  the component as it was: nothing is stored and no event is emitted. With a global
  variable \<^verbatim>\<open>socket\<close> it ends in a TypeError, the component again unchanged.
\<close>

theorem request_frame_raises:
  "messageListener
     (Arr [Num 0, Obj [(''id'', Str ''r1''), (''cmd'', Str ''chat''), (''data'', Str ''hi'')]])
     (connected browser) = (Throw ReferenceError, connected browser) \<and>
   messageListener
     (Arr [Num 0, Obj [(''id'', Str ''r1''), (''cmd'', Str ''chat''), (''data'', Str ''hi'')]])
     (connected (browser @ [(''socket'', Null)])) =
       (Throw TypeError, connected (browser @ [(''socket'', Null)]))"
  by code_simp

text \<open>
  Claim C9. The code does not do what the claim says. With the request \<^verbatim>\<open>a1\<close>
  outstanding, a request frame carrying the id \<^verbatim>\<open>a1\<close> ends in an error and leaves the
  component as it was, the outgoing entry and its continuation included.
\<close>

theorem request_frame_keeps_outgoing_entry:
  "map_of (requests (awaiting browser)) ''a1'' =
     Some (Obj [(''id'', Str ''a1''), (''cmd'', Str ''chat''), (''data'', Str ''hi''),
                (''callback'', Fn 3), (''timestamp'', Num 100)]) \<and>
   messageListener
     (Arr [Num 0, Obj [(''id'', Str ''a1''), (''cmd'', Str ''move''), (''data'', Num 5)]])
     (awaiting browser) = (Throw ReferenceError, awaiting browser) \<and>
   messageListener
     (Arr [Num 0, Obj [(''id'', Str ''a1''), (''cmd'', Str ''move''), (''data'', Num 5)]])
     (awaiting (browser @ [(''socket'', Null)])) =
       (Throw TypeError, awaiting (browser @ [(''socket'', Null)]))"
  by code_simp

text \<open>
  Claim C4. The code does not do what the claim says. For the request
  \<^verbatim>\<open>{id: "r1", cmd: "chat", data: "hi"}\<close>, stored by \<^verbatim>\<open>_onRequest\<close> called on the
  component, \<^verbatim>\<open>response("r1", "ok")\<close> sends the envelope with \<^verbatim>\<open>cmd\<close> undefined, not
  \<^verbatim>\<open>chat\<close>. And with no request stored at all, \<^verbatim>\<open>response("constructor", "ok")\<close>
  finds the inherited member and sends an envelope.
\<close>

theorem response_envelope_lacks_command:
  "effectsSince (connected (browser @ [(''socket'', Null)]))
     (snd (onRequest Component
        (Obj [(''id'', Str ''r1''), (''cmd'', Str ''chat''), (''data'', Str ''hi'')])
        (connected (browser @ [(''socket'', Null)])))) =
     [Emit (Str ''chat'') (Arr [Str ''r1'', Str ''hi''])] \<and>
   response (Str ''r1'') (Str ''ok'')
     (snd (onRequest Component
        (Obj [(''id'', Str ''r1''), (''cmd'', Str ''chat''), (''data'', Str ''hi'')])
        (connected (browser @ [(''socket'', Null)])))) =
     (Normal (),
      (connected (browser @ [(''socket'', Null)]))
        \<lparr>trace := trace (connected (browser @ [(''socket'', Null)])) @
           [Emit (Str ''chat'') (Arr [Str ''r1'', Str ''hi'']),
            IoSend (Arr [Num 1, Obj [(''id'', Str ''r1''), (''cmd'', Undefined), (''data'', Str ''ok'')]])]\<rparr>) \<and>
   requests (connected browser) = [] \<and>
   response (Str ''constructor'') (Str ''ok'') (connected browser) =
     (Normal (),
      (connected browser)
        \<lparr>trace := trace (connected browser) @
           [IoSend (Arr [Num 1, Obj [(''id'', Str ''constructor''), (''cmd'', Undefined),
                                     (''data'', Str ''ok'')]])]\<rparr>)"
  by code_simp

end
